theory Spec2Isabelle
  imports Complex_Main "HOL-Library.Sublist"
begin

section \<open>Outreach orchestrator: a shallow embedding\<close>

text \<open>
  The development embeds \<^verbatim>\<open>orchestrator.py\<close> (the per-lead pipeline, the quality
  evaluator, the generation-refinement loop and the batch runner) and the two parsing
  capabilities of \<^verbatim>\<open>kimi_agent.py\<close>.

  Conventions of the embedding.
  \<^item> Python floats are exact rationals (\<^typ>\<open>rat\<close>): sums and comparisons are the
    mathematical ones, binary rounding is not represented.
  \<^item> Python strings are \<^typ>\<open>string\<close> limited to ASCII: \<^verbatim>\<open>lower()\<close> maps A-Z to
    a-z, and \<^verbatim>\<open>split()\<close> cuts at the ASCII whitespace characters.
  \<^item> The loosely typed dictionaries (draft, analysis, result) are records whose optional
    keys are \<^typ>\<open>'a option\<close> fields; \<^verbatim>\<open>d.get(k, default)\<close> is a case on the field
    and \<^verbatim>\<open>d[k]\<close> on an absent key raises \<^verbatim>\<open>KeyError\<close>.
  \<^item> Exceptions are values of type \<open>exn\<close>; a stateful operation returns its
    result or exception together with the state it leaves behind.
  \<^item> Log lines and prompt strings are left out: they do not influence what is returned
    or stored.
\<close>

subsection \<open>Python primitives\<close>

datatype exn =
    TypeError string
  | KeyError string
  | AttributeError string
  | ValueError string
  | IndexError string
  | ServiceError string

fun str_of_exn :: "exn \<Rightarrow> string" where
  "str_of_exn (TypeError m) = m"
| "str_of_exn (KeyError k) = [CHR 0x27] @ k @ [CHR 0x27]"
| "str_of_exn (AttributeError m) = m"
| "str_of_exn (ValueError m) = m"
| "str_of_exn (IndexError m) = m"
| "str_of_exn (ServiceError m) = m"

definition get_default :: "'a option \<Rightarrow> 'a \<Rightarrow> 'a" where
  "get_default v d = (case v of None \<Rightarrow> d | Some x \<Rightarrow> x)"

definition lower_char :: "char \<Rightarrow> char" where
  "lower_char c =
     (case map_of (zip ''ABCDEFGHIJKLMNOPQRSTUVWXYZ'' ''abcdefghijklmnopqrstuvwxyz'') c of
        Some d \<Rightarrow> d
      | None \<Rightarrow> c)"

definition lower :: "string \<Rightarrow> string" where
  "lower s = map lower_char s"

definition is_space :: "char \<Rightarrow> bool" where
  "is_space c =
     (c \<in> set [CHR 0x09, CHR 0x0A, CHR 0x0B, CHR 0x0C, CHR 0x0D,
                CHR 0x1C, CHR 0x1D, CHR 0x1E, CHR 0x1F, CHR 0x20])"

text \<open>\<^verbatim>\<open>s.split()\<close>: the maximal runs of non-whitespace characters, in order.\<close>

fun split_words :: "string \<Rightarrow> string \<Rightarrow> string list" where
  "split_words cur [] = (if cur = [] then [] else [cur])"
| "split_words cur (c # cs) =
     (if is_space c
      then (if cur = [] then split_words [] cs else cur # split_words [] cs)
      else split_words (cur @ [c]) cs)"

definition split :: "string \<Rightarrow> string list" where
  "split s = split_words [] s"

text \<open>\<^verbatim>\<open>sub in s\<close> on strings: \<open>sub\<close> occurs as a contiguous block of \<open>s\<close>.\<close>

fun contains :: "string \<Rightarrow> string \<Rightarrow> bool" where
  "contains sub [] = (sub = [])"
| "contains sub (c # cs) = (prefix sub (c # cs) \<or> contains sub cs)"

text \<open>\<^verbatim>\<open>str(n)\<close> for a non-negative integer.\<close>

definition digit_char :: "nat \<Rightarrow> char" where
  "digit_char n = ''0123456789'' ! (n mod 10)"

function str_nat :: "nat \<Rightarrow> string" where
  "str_nat n = (if n < 10 then [digit_char n] else str_nat (n div 10) @ [digit_char n])"
  by pat_completeness auto
termination
  by (relation "measure id") auto

declare str_nat.simps [simp del]

subsection \<open>Configuration and payloads\<close>

text \<open>
  \<^verbatim>\<open>config.py\<close>: the settings the orchestrator can read. Only
  \<open>min_personalization_score\<close> and \<open>kimi_model\<close> are read by the code embedded here.
\<close>

record settings =
  kimi_model :: string
  min_personalization_score :: rat
  max_retries :: nat
  max_concurrent_requests :: nat

text \<open>The draft dictionary returned by the email-generation capability.\<close>

record email =
  subject_line :: "string option"
  email_body :: "string option"
  personalization_elements :: "string list option"
  expected_response_rate :: "rat option"
  email_error :: "string option"

text \<open>The analysis dictionary returned by the analysis capability.\<close>

record analysis =
  pain_points :: "string list option"
  interests :: "string list option"
  trigger_events :: "string list option"
  relevance_score :: "rat option"
  raw_analysis :: "string option"

record quality_check =
  quality_score :: rat
  passes_qa :: bool
  issues :: "string list"
  word_count :: nat
  personalization_count :: nat

subsection \<open>The quality evaluator\<close>

definition cta_keywords :: "string list" where
  "cta_keywords = [''call'', ''chat'', ''meet'', ''discuss'', ''connect'', ''interested'']"

definition spam_phrases :: "string list" where
  "spam_phrases =
     [''hope this email finds you well'',
      ''i wanted to reach out'',
      ''just touching base'',
      ''hope all is well'',
      ''checking in'']"

text \<open>
  \<^verbatim>\<open>_quality_control(self, email, analysis)\<close>: the score and the issue list are
  accumulated check by check, as the source does.
\<close>

definition quality_control :: "settings \<Rightarrow> email \<Rightarrow> analysis \<Rightarrow> quality_check" where
  "quality_control self email analysis =
     (let quality_score = (0 :: rat);
          issues = ([] :: string list);
          personalization_count = length (get_default (personalization_elements email) []);
          (quality_score, issues) =
            (if 3 \<le> personalization_count
             then (quality_score + 0.3, issues)
             else (quality_score,
                   issues @ [''Only '' @ str_nat personalization_count
                             @ '' personalization elements (need 3+)'']));
          body = get_default (email_body email) [];
          word_count = length (split body);
          (quality_score, issues) =
            (if 50 \<le> word_count \<and> word_count \<le> 200
             then (quality_score + 0.2, issues)
             else (quality_score,
                   issues @ [''Word count '' @ str_nat word_count @ '' (ideal: 50-200)'']));
          (quality_score, issues) =
            (if list_ex (\<lambda>keyword. contains keyword (lower body)) cta_keywords
             then (quality_score + 0.2, issues)
             else (quality_score, issues @ [''No clear call-to-action'']));
          (quality_score, issues) =
            (if \<not> list_ex (\<lambda>phrase. contains phrase (lower body)) spam_phrases
             then (quality_score + 0.2, issues)
             else (quality_score, issues @ [''Contains generic spam phrases'']));
          relevance = get_default (relevance_score analysis) 0;
          quality_score = quality_score + relevance * 0.1
      in \<lparr> quality_score = quality_score,
           passes_qa = (0.7 \<le> quality_score),
           issues = issues,
           word_count = word_count,
           personalization_count = personalization_count \<rparr>)"

text \<open>
  The evaluator as the specification words it: five contributions, each a function of the
  draft or the analysis alone, and one issue per failed check.
\<close>

definition personalization_ok :: "email \<Rightarrow> bool" where
  "personalization_ok e = (3 \<le> length (get_default (personalization_elements e) []))"

definition length_ok :: "email \<Rightarrow> bool" where
  "length_ok e =
     (50 \<le> length (split (get_default (email_body e) []))
      \<and> length (split (get_default (email_body e) [])) \<le> 200)"

definition cta_ok :: "email \<Rightarrow> bool" where
  "cta_ok e = (\<exists>k \<in> set cta_keywords. contains k (lower (get_default (email_body e) [])))"

definition spam_free :: "email \<Rightarrow> bool" where
  "spam_free e = (\<forall>p \<in> set spam_phrases. \<not> contains p (lower (get_default (email_body e) [])))"

definition weight :: "bool \<Rightarrow> rat \<Rightarrow> rat" where
  "weight ok w = (if ok then w else 0)"

definition relevance_contribution :: "analysis \<Rightarrow> rat" where
  "relevance_contribution a = get_default (relevance_score a) 0 * 0.1"


subsection \<open>More string primitives\<close>

text \<open>
  \<^verbatim>\<open>s.split(sep)\<close> for a separator: the pieces between successive occurrences of
  \<open>sep\<close>, scanning from the left. The callers pass literal, non-empty separators.
\<close>

function split_on :: "string \<Rightarrow> string \<Rightarrow> string \<Rightarrow> string list" where
  "split_on sep cur [] = [cur]"
| "split_on sep cur (c # cs) =
     (if sep \<noteq> [] \<and> prefix sep (c # cs)
      then cur # split_on sep [] (drop (length sep) (c # cs))
      else split_on sep (cur @ [c]) cs)"
  by pat_completeness auto
termination
  by (relation "measure (\<lambda>(sep, cur, s). length s)") (auto simp: neq_Nil_conv)

definition str_split :: "string \<Rightarrow> string \<Rightarrow> string list" where
  "str_split s sep = split_on sep [] s"

text \<open>\<^verbatim>\<open>xs[i]\<close> for \<open>i \<ge> 0\<close>: out of range raises \<^verbatim>\<open>IndexError\<close>.\<close>

definition index :: "'a list \<Rightarrow> nat \<Rightarrow> exn + 'a" where
  "index xs i = (if i < length xs then Inr (xs ! i) else Inl (IndexError ''list index out of range''))"

definition strip :: "string \<Rightarrow> string" where
  "strip s = rev (dropWhile is_space (rev (dropWhile is_space s)))"

text \<open>Truthiness of an optional string column: \<^verbatim>\<open>None\<close> and \<^verbatim>\<open>''\<close> are false.\<close>

definition truthy :: "string option \<Rightarrow> bool" where
  "truthy v = (case v of None \<Rightarrow> False | Some s \<Rightarrow> s \<noteq> [])"

subsection \<open>Data model (models.py)\<close>

datatype OutreachStatus =
  PENDING | ANALYZING | READY | SENT | OPENED | CLICKED | REPLIED | FAILED | SKIPPED

record lead =
  lead_id :: nat
  lead_name :: string
  lead_email :: string
  lead_company :: "string option"
  lead_job_title :: "string option"
  lead_location :: "string option"
  lead_linkedin_url :: "string option"
  lead_company_website :: "string option"
  lead_linkedin_profile_data :: "string option"
  lead_recent_posts :: "string list option"
  lead_company_news :: "string list option"
  lead_company_industry :: "string option"
  lead_pain_points :: "string list option"
  lead_interests :: "string list option"
  lead_trigger_events :: "string list option"
  lead_relevance_score :: "rat option"
  lead_last_enriched_at :: "nat option"

record generation_metadata =
  meta_analysis :: analysis
  meta_quality_check :: "quality_check option"
  meta_expected_response_rate :: "rat option"

record campaign =
  campaign_id :: nat
  campaign_lead_id :: nat
  campaign_subject_line :: string
  campaign_email_body :: string
  campaign_personalization_elements :: "string list"
  campaign_model_used :: string
  campaign_generation_metadata :: generation_metadata
  campaign_status :: OutreachStatus
  campaign_sent_at :: "nat option"

subsection \<open>Collaborators and the state they act on\<close>

text \<open>
  The calls that leave the process (the scrapers, the company-intelligence gatherer, the
  chat-completion API behind \<^verbatim>\<open>_call_kimi\<close>) and \<^verbatim>\<open>json.loads\<close> are parameters:
  each call is answered by a function of the number of collaborator events recorded so
  far, so successive calls may answer differently, and an answer is a value or an
  exception. The demo branch of \<^verbatim>\<open>_call_kimi\<close>, which answers with fixed contents,
  is one such function. \<^verbatim>\<open>json.loads\<close> answers with the dictionary read as the record
  the caller expects, with \<open>NonDict\<close> for valid JSON that is not an object, or with the
  decode error.
\<close>

datatype 'a loads = JSONDecodeError string | NonDict | Dict 'a

record company_data =
  cd_recent_news :: "string list option"
  cd_industry :: "string option"

record services =
  scrape_profile :: "nat \<Rightarrow> string \<Rightarrow> exn + string"
  get_recent_activity :: "nat \<Rightarrow> string \<Rightarrow> exn + string list"
  enrich_company_data :: "nat \<Rightarrow> string \<Rightarrow> string option \<Rightarrow> exn + company_data"
  call_kimi :: "nat \<Rightarrow> exn + string"
  loads_analysis :: "string \<Rightarrow> analysis loads"
  loads_email :: "string \<Rightarrow> email loads"

text \<open>
  The events of a run, in the order the code issues them. They instrument the model: the
  trace is how a theorem counts calls or orders persistence and dispatch.
\<close>

datatype call =
    ScrapeProfile
  | GetRecentActivity
  | EnrichCompanyData
  | AnalyzeLeadProfile
  | GeneratePersonalizedEmail
  | QualityControl
  | AddCampaign nat
  | Commit
  | SendEmail nat

text \<open>
  The database session: the rows it holds, a clock for \<^verbatim>\<open>datetime.utcnow()\<close> and the
  trace. Session operations succeed; a row is the object the code mutates, so an
  attribute assignment updates the row and \<^verbatim>\<open>commit\<close> only leaves an event.
\<close>

record state =
  leads :: "lead list"
  campaigns :: "campaign list"
  clock :: nat
  trace :: "call list"

definition emit :: "call \<Rightarrow> state \<Rightarrow> state" where
  "emit c st = st\<lparr>trace := trace st @ [c]\<rparr>"

definition calls :: "state \<Rightarrow> nat" where
  "calls st = length (trace st)"

definition db_commit :: "state \<Rightarrow> state" where
  "db_commit st = emit Commit st"

definition update_lead :: "nat \<Rightarrow> (lead \<Rightarrow> lead) \<Rightarrow> state \<Rightarrow> state" where
  "update_lead i f st = st\<lparr>leads := map (\<lambda>l. if lead_id l = i then f l else l) (leads st)\<rparr>"

definition update_campaign :: "nat \<Rightarrow> (campaign \<Rightarrow> campaign) \<Rightarrow> state \<Rightarrow> state" where
  "update_campaign i f st =
     st\<lparr>campaigns := map (\<lambda>c. if campaign_id c = i then f c else c) (campaigns st)\<rparr>"

definition fresh_campaign_id :: "state \<Rightarrow> nat" where
  "fresh_campaign_id st = Suc (fold max (map campaign_id (campaigns st)) 0)"

text \<open>\<^verbatim>\<open>db.add(campaign)\<close>: the row joins the table under a new primary key.\<close>

definition db_add :: "campaign \<Rightarrow> state \<Rightarrow> campaign \<times> state" where
  "db_add c st =
     (let c' = c\<lparr>campaign_id := fresh_campaign_id st\<rparr>
      in (c', emit (AddCampaign (campaign_id c')) (st\<lparr>campaigns := campaigns st @ [c']\<rparr>)))"

definition get_campaign :: "state \<Rightarrow> nat \<Rightarrow> campaign option" where
  "get_campaign st i = find (\<lambda>c. campaign_id c = i) (campaigns st)"

definition utcnow :: "state \<Rightarrow> nat \<times> state" where
  "utcnow st = (clock st, st\<lparr>clock := Suc (clock st)\<rparr>)"

subsection \<open>The generation service (kimi_agent.py)\<close>

type_synonym lead_data = "string \<rightharpoonup> string option"

text \<open>
  The start of both \<^verbatim>\<open>try\<close> blocks: the text between a \<^verbatim>\<open>```json\<close> (or
  \<^verbatim>\<open>```\<close>) fence and the next fence, stripped; the whole content when there is no
  fence.
\<close>

definition extract_json :: "string \<Rightarrow> exn + string" where
  "extract_json content =
     (if contains ''```json'' content then
        (case index (str_split content ''```json'') 1 of
           Inl e \<Rightarrow> Inl e
         | Inr part \<Rightarrow>
             (case index (str_split part ''```'') 0 of
                Inl e \<Rightarrow> Inl e
              | Inr inner \<Rightarrow> Inr (strip inner)))
      else if contains ''```'' content then
        (case index (str_split content ''```'') 1 of
           Inl e \<Rightarrow> Inl e
         | Inr part \<Rightarrow>
             (case index (str_split part ''```'') 0 of
                Inl e \<Rightarrow> Inl e
              | Inr inner \<Rightarrow> Inr (strip inner)))
      else Inr content)"

text \<open>
  \<^verbatim>\<open>analyze_lead_profile(lead_data)\<close>. Only \<^verbatim>\<open>json.JSONDecodeError\<close> is caught;
  the log line after a successful parse calls \<^verbatim>\<open>analysis.get\<close>, which raises on a
  value that is not a dictionary.
\<close>

definition analyze_lead_profile ::
  "services \<Rightarrow> lead_data \<Rightarrow> state \<Rightarrow> (exn + analysis) \<times> state" where
  "analyze_lead_profile sv lead_data st =
     (let st1 = emit AnalyzeLeadProfile st in
      case call_kimi sv (calls st) of
        Inl e \<Rightarrow> (Inl e, st1)
      | Inr response_content \<Rightarrow>
          (case extract_json response_content of
             Inl e \<Rightarrow> (Inl e, st1)
           | Inr content \<Rightarrow>
               (case loads_analysis sv content of
                  Dict analysis \<Rightarrow> (Inr analysis, st1)
                | NonDict \<Rightarrow> (Inl (AttributeError ''object has no attribute get''), st1)
                | JSONDecodeError e \<Rightarrow>
                    (Inr \<lparr> pain_points = None, interests = None, trigger_events = None,
                           relevance_score = Some 0.5,
                           raw_analysis = Some response_content \<rparr>, st1))))"

text \<open>
  \<^verbatim>\<open>generate_personalized_email(lead_data, analysis, company_context,
  value_proposition, email_goal)\<close>. In the fallback, \<^verbatim>\<open>lead_data.get('company', '')\<close>
  yields the default only when the key is absent; a key bound to \<^verbatim>\<open>None\<close> yields
  \<^verbatim>\<open>None\<close>, and concatenating it to a string raises \<^verbatim>\<open>TypeError\<close>.
\<close>

definition generate_personalized_email ::
  "services \<Rightarrow> lead_data \<Rightarrow> analysis \<Rightarrow> string \<Rightarrow> string \<Rightarrow> string \<Rightarrow> state
     \<Rightarrow> (exn + email) \<times> state" where
  "generate_personalized_email sv lead_data analysis company_context value_proposition
       email_goal st =
     (let st1 = emit GeneratePersonalizedEmail st in
      case call_kimi sv (calls st) of
        Inl e \<Rightarrow> (Inl e, st1)
      | Inr response_content \<Rightarrow>
          (case extract_json response_content of
             Inl e \<Rightarrow> (Inl e, st1)
           | Inr content \<Rightarrow>
               (case loads_email sv content of
                  Dict email_data \<Rightarrow> (Inr email_data, st1)
                | NonDict \<Rightarrow> (Inl (AttributeError ''object has no attribute get''), st1)
                | JSONDecodeError e \<Rightarrow>
                    (case get_default (lead_data ''company'') (Some []) of
                       None \<Rightarrow>
                         (Inl (TypeError ''can only concatenate str (not NoneType) to str''),
                          st1)
                     | Some company \<Rightarrow>
                         (Inr \<lparr> subject_line =
                                   Some (''Quick question about your work at '' @ company),
                                email_body = Some response_content,
                                personalization_elements = Some [],
                                expected_response_rate = None,
                                email_error = Some e \<rparr>, st1)))))"

subsection \<open>The orchestrator (orchestrator.py)\<close>

record enrichment_data =
  linkedin_profile :: "string option"
  recent_activity :: "string list option"
  company_intelligence :: "company_data option"

record enrichment =
  enr_status :: string
  enr_error :: "string option"
  enr_data :: enrichment_data

record send_result =
  success :: bool
  sent_at :: nat

record result =
  res_lead_id :: nat
  res_lead_name :: string
  status :: string
  stage_enrichment :: "enrichment option"
  stage_analysis :: "analysis option"
  stage_email_generation :: "email option"
  stage_quality_check :: "quality_check option"
  stage_send :: "send_result option"
  res_campaign_id :: "nat option"
  res_relevance_score :: "rat option"
  res_error :: "string option"

text \<open>The LinkedIn part of \<^verbatim>\<open>_enrich_lead_data\<close>, up to the first exception.\<close>

definition enrich_linkedin ::
  "services \<Rightarrow> lead \<Rightarrow> enrichment_data \<Rightarrow> state \<Rightarrow> (exn + enrichment_data) \<times> state" where
  "enrich_linkedin sv lead d st =
     (if truthy (lead_linkedin_url lead) then
        (let url = get_default (lead_linkedin_url lead) [];
             st1 = emit ScrapeProfile st in
         case scrape_profile sv (calls st) url of
           Inl e \<Rightarrow> (Inl e, st1)
         | Inr profile_data \<Rightarrow>
             (let d1 = d\<lparr>linkedin_profile := Some profile_data\<rparr>;
                  st2 = emit GetRecentActivity st1 in
              case get_recent_activity sv (calls st1) url of
                Inl e \<Rightarrow> (Inl e, st2)
              | Inr activity \<Rightarrow>
                  (Inr (d1\<lparr>recent_activity := Some activity\<rparr>),
                   update_lead (lead_id lead)
                     (\<lambda>l. l\<lparr>lead_linkedin_profile_data := Some profile_data,
                             lead_recent_posts := Some activity\<rparr>) st2)))
      else (Inr d, st))"

text \<open>The company part of \<^verbatim>\<open>_enrich_lead_data\<close>.\<close>

definition enrich_company ::
  "services \<Rightarrow> lead \<Rightarrow> enrichment_data \<Rightarrow> state \<Rightarrow> (exn + enrichment_data) \<times> state" where
  "enrich_company sv lead d st =
     (if truthy (lead_company lead) then
        (let st1 = emit EnrichCompanyData st in
         case enrich_company_data sv (calls st) (get_default (lead_company lead) [])
                (lead_company_website lead) of
           Inl e \<Rightarrow> (Inl e, st1)
         | Inr cd \<Rightarrow>
             (Inr (d\<lparr>company_intelligence := Some cd\<rparr>),
              update_lead (lead_id lead)
                (\<lambda>l. l\<lparr>lead_company_news := Some (get_default (cd_recent_news cd) []),
                        lead_company_industry := cd_industry cd\<rparr>) st1))
      else (Inr d, st))"

definition enrichment_failed :: "exn \<Rightarrow> enrichment" where
  "enrichment_failed e =
     \<lparr> enr_status = ''failed'', enr_error = Some (str_of_exn e),
       enr_data = \<lparr> linkedin_profile = None, recent_activity = None,
                    company_intelligence = None \<rparr> \<rparr>"

text \<open>\<^verbatim>\<open>_enrich_lead_data(self, lead)\<close>: any exception of the block yields status failed.\<close>

definition enrich_lead_data :: "services \<Rightarrow> settings \<Rightarrow> lead \<Rightarrow> state \<Rightarrow> enrichment \<times> state" where
  "enrich_lead_data sv self lead st =
     (let d0 = \<lparr> linkedin_profile = None, recent_activity = None,
                 company_intelligence = None \<rparr> in
      case enrich_linkedin sv lead d0 st of
        (Inl e, st1) \<Rightarrow> (enrichment_failed e, st1)
      | (Inr d1, st1) \<Rightarrow>
          (case enrich_company sv lead d1 st1 of
             (Inl e, st2) \<Rightarrow> (enrichment_failed e, st2)
           | (Inr d2, st2) \<Rightarrow>
               (let (now, st3) = utcnow st2;
                    st4 = update_lead (lead_id lead)
                            (\<lambda>l. l\<lparr>lead_last_enriched_at := Some now\<rparr>) st3;
                    st5 = db_commit st4
                in (\<lparr> enr_status = ''success'', enr_error = None, enr_data = d2 \<rparr>, st5))))"

text \<open>\<^verbatim>\<open>_analyze_lead(self, lead, enrichment_data)\<close>.\<close>

definition analyze_lead ::
  "services \<Rightarrow> settings \<Rightarrow> lead \<Rightarrow> enrichment_data \<Rightarrow> state \<Rightarrow> (exn + analysis) \<times> state" where
  "analyze_lead sv self lead enrichment_data st =
     (let lead_data = map_of
            [(''name'', Some (lead_name lead)),
             (''email'', Some (lead_email lead)),
             (''company'', lead_company lead),
             (''job_title'', lead_job_title lead),
             (''location'', lead_location lead)] in
      case analyze_lead_profile sv lead_data st of
        (Inl e, st1) \<Rightarrow> (Inl e, st1)
      | (Inr analysis, st1) \<Rightarrow>
          (let st2 = update_lead (lead_id lead)
                       (\<lambda>l. l\<lparr>lead_pain_points := Some (get_default (pain_points analysis) []),
                               lead_interests := Some (get_default (interests analysis) []),
                               lead_trigger_events :=
                                 Some (get_default (trigger_events analysis) []),
                               lead_relevance_score :=
                                 Some (get_default (relevance_score analysis) 0)\<rparr>) st1;
               st3 = db_commit st2
           in (Inr analysis, st3)))"

text \<open>\<^verbatim>\<open>_generate_email(self, lead, analysis, company_context, value_proposition)\<close>.\<close>

definition generate_email ::
  "services \<Rightarrow> settings \<Rightarrow> lead \<Rightarrow> analysis \<Rightarrow> string \<Rightarrow> string \<Rightarrow> state
     \<Rightarrow> (exn + email) \<times> state" where
  "generate_email sv self lead analysis company_context value_proposition st =
     (let lead_data = map_of
            [(''name'', Some (lead_name lead)),
             (''company'', lead_company lead),
             (''job_title'', lead_job_title lead)]
      in generate_personalized_email sv lead_data analysis company_context
           value_proposition ''schedule_call'' st)"

text \<open>
  The generation-refinement loop of \<^verbatim>\<open>process_lead\<close>:
  \<^verbatim>\<open>for attempt in range(max_attempts)\<close> with its \<^verbatim>\<open>break\<close>. The first argument
  counts the attempts still to run; \<open>email\<close> and \<open>quality_check\<close> hold what the
  previous attempt left (\<^verbatim>\<open>None\<close> before the first). An exception of the generation
  service leaves the loop.
\<close>

fun refine ::
  "nat \<Rightarrow> services \<Rightarrow> settings \<Rightarrow> lead \<Rightarrow> analysis \<Rightarrow> string \<Rightarrow> string
     \<Rightarrow> email option \<Rightarrow> quality_check option \<Rightarrow> state
     \<Rightarrow> (exn + email option \<times> quality_check option) \<times> state" where
  "refine 0 sv self lead analysis company_context value_proposition email quality_check st =
     (Inr (email, quality_check), st)"
| "refine (Suc n) sv self lead analysis company_context value_proposition email quality_check st =
     (case generate_email sv self lead analysis company_context value_proposition st of
        (Inl e, st1) \<Rightarrow> (Inl e, st1)
      | (Inr email', st1) \<Rightarrow>
          (let quality_check' = quality_control self email' analysis;
               st2 = emit QualityControl st1
           in if 0.8 \<le> quality_score quality_check'
              then (Inr (Some email', Some quality_check'), st2)
              else refine n sv self lead analysis company_context value_proposition
                     (Some email') (Some quality_check') st2))"

text \<open>
  \<^verbatim>\<open>_create_campaign(self, lead, email, analysis, quality_check)\<close>:
  \<^verbatim>\<open>email['subject_line']\<close> and \<^verbatim>\<open>email['email_body']\<close> are read without a default.
\<close>

definition create_campaign ::
  "settings \<Rightarrow> lead \<Rightarrow> email option \<Rightarrow> analysis \<Rightarrow> quality_check option \<Rightarrow> state
     \<Rightarrow> (exn + campaign) \<times> state" where
  "create_campaign self lead email analysis quality_check st =
     (case email of
        None \<Rightarrow> (Inl (TypeError ''NoneType object is not subscriptable''), st)
      | Some em \<Rightarrow>
          (case subject_line em of
             None \<Rightarrow> (Inl (KeyError ''subject_line''), st)
           | Some subj \<Rightarrow>
               (case email_body em of
                  None \<Rightarrow> (Inl (KeyError ''email_body''), st)
                | Some body \<Rightarrow>
                    (let campaign =
                           \<lparr> campaign_id = 0,
                             campaign_lead_id = lead_id lead,
                             campaign_subject_line = subj,
                             campaign_email_body = body,
                             campaign_personalization_elements =
                               get_default (personalization_elements em) [],
                             campaign_model_used = kimi_model self,
                             campaign_generation_metadata =
                               \<lparr> meta_analysis = analysis,
                                 meta_quality_check = quality_check,
                                 meta_expected_response_rate = expected_response_rate em \<rparr>,
                             campaign_status = READY,
                             campaign_sent_at = None \<rparr>;
                         (campaign, st1) = db_add campaign st;
                         st2 = db_commit st1
                     in (Inr campaign, st2)))))"

text \<open>
  \<^verbatim>\<open>_send_email(self, campaign)\<close>: the placeholder transmits nothing; it marks the
  row sent, stamps it, commits, and always reports success.
\<close>

definition send_email :: "campaign \<Rightarrow> state \<Rightarrow> send_result \<times> state" where
  "send_email campaign st =
     (let st1 = emit (SendEmail (campaign_id campaign)) st;
          (now, st2) = utcnow st1;
          st3 = update_campaign (campaign_id campaign)
                  (\<lambda>c. c\<lparr>campaign_status := SENT, campaign_sent_at := Some now\<rparr>) st2;
          st4 = db_commit st3
      in (\<lparr> success = True, sent_at = now \<rparr>, st4))"

text \<open>The \<^verbatim>\<open>except Exception\<close> handler of \<^verbatim>\<open>process_lead\<close>.\<close>

definition on_error :: "result \<Rightarrow> exn \<Rightarrow> result" where
  "on_error result e = result\<lparr>status := ''error'', res_error := Some (str_of_exn e)\<rparr>"

text \<open>Stages 5 and 6 of \<^verbatim>\<open>process_lead\<close>: create the campaign, then decide on sending.\<close>

definition persist_and_send ::
  "settings \<Rightarrow> lead \<Rightarrow> bool \<Rightarrow> analysis \<Rightarrow> email option \<Rightarrow> quality_check option \<Rightarrow> result
     \<Rightarrow> state \<Rightarrow> result \<times> state" where
  "persist_and_send self lead auto_send analysis email quality_check result st =
     (case create_campaign self lead email analysis quality_check st of
        (Inl e, st1) \<Rightarrow> (on_error result e, st1)
      | (Inr campaign, st1) \<Rightarrow>
          (let result = result\<lparr>res_campaign_id := Some (campaign_id campaign),
                               status := ''ready''\<rparr> in
           if auto_send then
             (case quality_check of
                None \<Rightarrow>
                  (on_error result (TypeError ''NoneType object is not subscriptable''), st1)
              | Some qc \<Rightarrow>
                  if 0.8 \<le> quality_score qc then
                    (let (send_result, st2) = send_email campaign st1;
                         result = result\<lparr>stage_send := Some send_result\<rparr>
                     in (result\<lparr>status := (if success send_result then ''sent''
                                             else ''send_failed'')\<rparr>, st2))
                  else (result\<lparr>status := ''pending_review''\<rparr>, st1))
           else (result\<lparr>status := ''pending_review''\<rparr>, st1)))"

text \<open>
  \<^verbatim>\<open>process_lead(self, lead, company_context, value_proposition, auto_send)\<close>. The
  result dictionary, which starts as \<open>initial_result\<close>, is returned together with the
  state the run leaves.
\<close>

definition initial_result :: "lead \<Rightarrow> result" where
  "initial_result lead =
     \<lparr> res_lead_id = lead_id lead, res_lead_name = lead_name lead,
       status = ''processing'',
       stage_enrichment = None, stage_analysis = None,
       stage_email_generation = None, stage_quality_check = None,
       stage_send = None, res_campaign_id = None,
       res_relevance_score = None, res_error = None \<rparr>"

definition process_lead ::
  "services \<Rightarrow> settings \<Rightarrow> lead \<Rightarrow> string \<Rightarrow> string \<Rightarrow> bool \<Rightarrow> state \<Rightarrow> result \<times> state" where
  "process_lead sv self lead company_context value_proposition auto_send st =
     (let result = initial_result lead;
          (enrichment, st1) = enrich_lead_data sv self lead st;
          result = result\<lparr>stage_enrichment := Some enrichment\<rparr>
      in if enr_status enrichment = ''failed''
         then (result\<lparr>status := ''enrichment_failed''\<rparr>, st1)
         else
           (case analyze_lead sv self lead (enr_data enrichment) st1 of
              (Inl e, st2) \<Rightarrow> (on_error result e, st2)
            | (Inr analysis, st2) \<Rightarrow>
                (let result = result\<lparr>stage_analysis := Some analysis\<rparr>;
                     relevance = get_default (relevance_score analysis) 0
                 in if relevance < min_personalization_score self
                    then (result\<lparr>status := ''low_relevance'',
                                  res_relevance_score := Some relevance\<rparr>, st2)
                    else
                      (let max_attempts = 2 in
                       case refine max_attempts sv self lead analysis company_context
                              value_proposition None None st2 of
                         (Inl e, st3) \<Rightarrow> (on_error result e, st3)
                       | (Inr (email, quality_check), st3) \<Rightarrow>
                           persist_and_send self lead auto_send analysis email quality_check
                             (result\<lparr>stage_email_generation := email,
                                     stage_quality_check := quality_check\<rparr>) st3))))"

subsection \<open>The batch runner\<close>

record statistics =
  total :: nat
  successful :: nat
  sent :: nat
  low_relevance :: nat
  failed :: nat

text \<open>
  \<^verbatim>\<open>asyncio.gather(*[process_with_semaphore(lead) for lead in leads],
  return_exceptions=True)\<close>: one entry per lead, in the order of \<open>leads\<close>; an entry is
  a result or the exception the task raised. The tasks are run one after the other, which
  is the schedule of a limit of one and a legal schedule for every larger limit; how the
  event loop interleaves tasks at their suspension points is not represented.
\<close>

fun gather ::
  "services \<Rightarrow> settings \<Rightarrow> string \<Rightarrow> string \<Rightarrow> bool \<Rightarrow> lead list \<Rightarrow> state
     \<Rightarrow> (exn + result) list \<times> state" where
  "gather sv self company_context value_proposition auto_send [] st = ([], st)"
| "gather sv self company_context value_proposition auto_send (lead # rest) st =
     (let (r, st1) = process_lead sv self lead company_context value_proposition auto_send st;
          (rs, st2) = gather sv self company_context value_proposition auto_send rest st1
      in (Inr r # rs, st2))"

text \<open>
  The statistics block. \<^verbatim>\<open>r.get('status')\<close> on an entry that is an exception object
  raises \<^verbatim>\<open>AttributeError\<close>.
\<close>

definition status_of :: "exn + result \<Rightarrow> string" where
  "status_of r = (case r of Inl e \<Rightarrow> [] | Inr res \<Rightarrow> status res)"

definition compile_statistics :: "(exn + result) list \<Rightarrow> exn + statistics" where
  "compile_statistics results =
     (if list_ex isl results
      then Inl (AttributeError ''object has no attribute get'')
      else Inr
        \<lparr> total = length results,
          successful = sum_list (map (\<lambda>r. 1)
             (filter (\<lambda>r. status_of r = ''ready'' \<or> status_of r = ''sent'') results)),
          sent = sum_list (map (\<lambda>r. 1) (filter (\<lambda>r. status_of r = ''sent'') results)),
          low_relevance = sum_list (map (\<lambda>r. 1)
             (filter (\<lambda>r. status_of r = ''low_relevance'') results)),
          failed = sum_list (map (\<lambda>r. 1)
             (filter (\<lambda>r. status_of r \<in> set [''error'', ''enrichment_failed'']) results)) \<rparr>)"

record batch_result =
  results :: "(exn + result) list"
  statistics :: statistics

text \<open>
  \<^verbatim>\<open>batch_process_leads(self, lead_ids, company_context, value_proposition, auto_send,
  max_concurrent)\<close>. The leads are the rows whose id is among \<open>lead_ids\<close>.
  \<^verbatim>\<open>asyncio.Semaphore\<close> refuses a negative limit with \<^verbatim>\<open>ValueError\<close>; with a limit of
  zero every task waits for a slot that is never released, so the call does not return
  (\<open>None\<close>) unless there is no task at all.
\<close>

definition batch_process_leads ::
  "services \<Rightarrow> settings \<Rightarrow> nat list \<Rightarrow> string \<Rightarrow> string \<Rightarrow> bool \<Rightarrow> int \<Rightarrow> state
     \<Rightarrow> ((exn + batch_result) \<times> state) option" where
  "batch_process_leads sv self lead_ids company_context value_proposition auto_send
       max_concurrent st =
     (let ls = filter (\<lambda>l. lead_id l \<in> set lead_ids) (leads st) in
      if max_concurrent < 0 then Some (Inl (ValueError ''Semaphore initial value must be >= 0''), st)
      else if max_concurrent = 0 \<and> ls \<noteq> [] then None
      else
        (let (rs, st1) = gather sv self company_context value_proposition auto_send ls st in
         case compile_statistics rs of
           Inl e \<Rightarrow> Some (Inl e, st1)
         | Inr stats \<Rightarrow> Some (Inr \<lparr> results = rs, statistics = stats \<rparr>, st1)))"

text \<open>The statistics of a batch call that returned normally.\<close>

definition batch_statistics :: "((exn + batch_result) \<times> state) option \<Rightarrow> statistics option" where
  "batch_statistics r = (case r of Some (Inr br, st) \<Rightarrow> Some (statistics br) | _ \<Rightarrow> None)"

definition batch_statuses :: "((exn + batch_result) \<times> state) option \<Rightarrow> string list" where
  "batch_statuses r = (case r of Some (Inr br, st) \<Rightarrow> map status_of (results br) | _ \<Rightarrow> [])"

subsection \<open>Concrete inputs\<close>

definition default_settings :: settings where
  "default_settings =
     \<lparr> kimi_model = ''moonshot-v1-128k'', min_personalization_score = 0.7,
       max_retries = 3, max_concurrent_requests = 5 \<rparr>"

definition generic_draft :: email where
  "generic_draft =
     \<lparr> subject_line = Some ''Hello'', email_body = Some ''Just checking in'',
       personalization_elements = Some [], expected_response_rate = None,
       email_error = None \<rparr>"

definition analysis_with :: "rat \<Rightarrow> analysis" where
  "analysis_with r =
     \<lparr> pain_points = None, interests = None, trigger_events = None,
       relevance_score = Some r, raw_analysis = None \<rparr>"

definition strong_draft :: email where
  "strong_draft =
     \<lparr> subject_line = Some ''Your post about deployment bottlenecks'',
       email_body = Some (''Hi Rahul, Saw your LinkedIn post this week about deployment ''
         @ ''bottlenecks as TechCorp scales. With your Series B and 15+ engineering ''
         @ ''openings, this timing feels familiar. We helped Razorpay tackle similar ''
         @ ''challenges during their hypergrowth phase - they went from 45-minute ''
         @ ''deploys to 12 minutes, letting their teams ship 3x more features. ''
         @ ''Worth a 15-minute chat about their approach? Best, [Your Name]''),
       personalization_elements =
         Some [''References specific LinkedIn post'', ''Mentions Series B funding'',
               ''Ties to engineering hiring surge'', ''Relevant social proof (Razorpay)''],
       expected_response_rate = Some 0.18,
       email_error = None \<rparr>"

definition medium_draft :: email where
  "medium_draft = strong_draft\<lparr>email_body := Some ''Worth a quick chat this week?''\<rparr>"

definition strict_settings :: settings where
  "strict_settings =
     \<lparr> kimi_model = ''moonshot-v1-8k'', min_personalization_score = 0.95,
       max_retries = 0, max_concurrent_requests = 1 \<rparr>"


definition ann :: lead where
  "ann =
     \<lparr> lead_id = 1, lead_name = ''Ann'', lead_email = ''ann@example.com'',
       lead_company = None, lead_job_title = None, lead_location = None,
       lead_linkedin_url = None, lead_company_website = None,
       lead_linkedin_profile_data = None, lead_recent_posts = None,
       lead_company_news = None, lead_company_industry = None,
       lead_pain_points = None, lead_interests = None, lead_trigger_events = None,
       lead_relevance_score = None, lead_last_enriched_at = None \<rparr>"

definition bob :: lead where
  "bob = ann\<lparr>lead_id := 2, lead_name := ''Bob'', lead_email := ''bob@example.com'',
              lead_linkedin_url := Some ''bob-b''\<rparr>"

definition store :: state where
  "store = \<lparr> leads = [ann, bob], campaigns = [], clock = 0, trace = [] \<rparr>"

text \<open>
  Collaborators for the examples. All answer the scrapers and the company gatherer with
  an empty payload unless said otherwise.
  \<^item> \<open>plain_text_services\<close>: the model answers in prose, which does not parse.
  \<^item> \<open>mock_services\<close>: every analysis has relevance 0.92 and every draft is
    \<open>strong_draft\<close>.
  \<^item> \<open>retry_services\<close>: as \<open>mock_services\<close>, but the first call of the run is answered
    with \<open>generic_draft\<close>.
  \<^item> \<open>headless_services\<close>: as \<open>mock_services\<close>, but the draft has no subject line.
  \<^item> \<open>offline_services\<close>: as \<open>mock_services\<close>, but the profile scraper raises.
  \<^item> \<open>cold_services\<close>: as \<open>mock_services\<close>, but every analysis has relevance 0.4.
  \<^item> \<open>weak_offline_services\<close>: as \<open>offline_services\<close>, but every draft is
    \<open>generic_draft\<close>.
\<close>

definition plain_text_services :: services where
  "plain_text_services =
     \<lparr> scrape_profile = (\<lambda>k url. Inr []),
       get_recent_activity = (\<lambda>k url. Inr []),
       enrich_company_data = (\<lambda>k name site. Inr \<lparr> cd_recent_news = None, cd_industry = None \<rparr>),
       call_kimi = (\<lambda>k. Inr ''I am sorry, I cannot write this email.''),
       loads_analysis = (\<lambda>s. JSONDecodeError ''Expecting value: line 1 column 1 (char 0)''),
       loads_email = (\<lambda>s. JSONDecodeError ''Expecting value: line 1 column 1 (char 0)'') \<rparr>"

definition mock_services :: services where
  "mock_services =
     plain_text_services
       \<lparr> call_kimi := (\<lambda>k. Inr ''```json {} ```''),
         loads_analysis := (\<lambda>s. Dict (analysis_with 0.92)),
         loads_email := (\<lambda>s. Dict strong_draft) \<rparr>"



definition offline_services :: services where
  "offline_services =
     mock_services\<lparr>scrape_profile := (\<lambda>k url. Inl (ServiceError ''connection refused''))\<rparr>"

definition cold_services :: services where
  "cold_services = mock_services\<lparr>loads_analysis := (\<lambda>s. Dict (analysis_with 0.4))\<rparr>"

definition weak_offline_services :: services where
  "weak_offline_services = offline_services\<lparr>loads_email := (\<lambda>s. Dict generic_draft)\<rparr>"

section \<open>Properties\<close>

subsection \<open>Properties of the quality evaluator\<close>

lemma quality_score_sum:
  "quality_score (quality_control self e a) =
     weight (personalization_ok e) 0.3 + weight (length_ok e) 0.2
     + weight (cta_ok e) 0.2 + weight (spam_free e) 0.2 + relevance_contribution a"
  by (simp add: quality_control_def Let_def weight_def personalization_ok_def length_ok_def
      cta_ok_def spam_free_def relevance_contribution_def list_ex_iff)





subsection \<open>The parsing capabilities of the generation service\<close>

lemma split_on_nonempty: "split_on sep cur s \<noteq> []"
  by (induction sep cur s rule: split_on.induct) auto

lemma split_on_two:
  "sep \<noteq> [] \<Longrightarrow> contains sep s \<Longrightarrow> 2 \<le> length (split_on sep cur s)"
proof (induction sep cur s rule: split_on.induct)
  case (1 sep cur)
  then show ?case by simp
next
  case (2 sep cur c cs)
  show ?case
  proof (cases "prefix sep (c # cs)")
    case True
    have "1 \<le> length (split_on sep [] (drop (length sep) (c # cs)))"
      using split_on_nonempty [of sep "[]" "drop (length sep) (c # cs)"]
      by (cases "split_on sep [] (drop (length sep) (c # cs))") auto
    with True 2 show ?thesis by simp
  next
    case False
    with 2 show ?thesis by simp
  qed
qed

lemma index_first: "\<exists>x. index (str_split s sep) 0 = Inr x"
  using split_on_nonempty [of sep "[]" s] by (simp add: index_def str_split_def)

lemma index_second:
  "sep \<noteq> [] \<Longrightarrow> contains sep s \<Longrightarrow> \<exists>x. index (str_split s sep) 1 = Inr x"
  using split_on_two [of sep s "[]"] by (simp add: index_def str_split_def)

lemma extract_json_total: "\<exists>c. extract_json content = Inr c"
proof (cases "contains ''```json'' content")
  case True
  obtain part where p: "index (str_split content ''```json'') 1 = Inr part"
    using index_second [OF _ True] by auto
  obtain inner where i: "index (str_split part ''```'') 0 = Inr inner"
    using index_first by blast
  from True p i show ?thesis by (simp add: extract_json_def)
next
  case False
  show ?thesis
  proof (cases "contains ''```'' content")
    case True
    obtain part where p: "index (str_split content ''```'') 1 = Inr part"
      using index_second [OF _ True] by auto
    obtain inner where i: "index (str_split part ''```'') 0 = Inr inner"
      using index_first by blast
    from False True p i show ?thesis by (simp add: extract_json_def)
  next
    case F2: False
    with False show ?thesis by (simp add: extract_json_def)
  qed
qed

lemma analysis_fallback:
  assumes "call_kimi sv (calls st) = Inr response_content"
    and "extract_json response_content = Inr content"
    and "loads_analysis sv content = JSONDecodeError m"
  shows "fst (analyze_lead_profile sv lead_data st) =
           Inr \<lparr> pain_points = None, interests = None, trigger_events = None,
                 relevance_score = Some 0.5, raw_analysis = Some response_content \<rparr>"
  using assms by (simp add: analyze_lead_profile_def Let_def)

lemma email_fallback:
  assumes "call_kimi sv (calls st) = Inr response_content"
    and "extract_json response_content = Inr content"
    and "loads_email sv content = JSONDecodeError m"
    and "lead_data ''company'' \<noteq> Some None"
  shows "\<exists>subj. fst (generate_personalized_email sv lead_data analysis cc vp goal st) =
           Inr \<lparr> subject_line = Some subj, email_body = Some response_content,
                 personalization_elements = Some [], expected_response_rate = None,
                 email_error = Some m \<rparr>"
  using assms
  by (cases "lead_data ''company''")
     (auto simp: generate_personalized_email_def Let_def get_default_def split: option.splits)

lemma email_fallback_raises:
  assumes "call_kimi sv (calls st) = Inr response_content"
    and "extract_json response_content = Inr content"
    and "loads_email sv content = JSONDecodeError m"
    and "lead_data ''company'' = Some None"
  shows "fst (generate_personalized_email sv lead_data analysis cc vp goal st) =
           Inl (TypeError ''can only concatenate str (not NoneType) to str'')"
  using assms
  by (simp add: generate_personalized_email_def Let_def get_default_def)

subsection \<open>The generation-refinement loop\<close>


lemma campaigns_emit: "campaigns (emit c st) = campaigns st"
  by (simp add: emit_def)

lemma generate_personalized_email_state:
  "snd (generate_personalized_email sv ld a cc vp g st) = emit GeneratePersonalizedEmail st"
  by (simp add: generate_personalized_email_def Let_def
      split: sum.splits loads.splits option.splits)

lemma generate_email_state:
  "snd (generate_email sv self lead a cc vp st) = emit GeneratePersonalizedEmail st"
  by (simp add: generate_email_def generate_personalized_email_state)




lemma refine_retry:
  assumes "generate_email sv self lead a cc vp st = (Inr e1, st1)"
    and "\<not> 0.8 \<le> quality_score (quality_control self e1 a)"
  shows "refine (Suc n) sv self lead a cc vp e q st =
           refine n sv self lead a cc vp (Some e1) (Some (quality_control self e1 a))
             (emit QualityControl st1)"
  using assms by (simp add: Let_def)


subsection \<open>What each stage does to the state\<close>

lemma enrich_linkedin_effects:
  "\<exists>evs. trace (snd (enrich_linkedin sv lead d st)) = trace st @ evs
     \<and> set evs \<subseteq> {ScrapeProfile, GetRecentActivity}
     \<and> campaigns (snd (enrich_linkedin sv lead d st)) = campaigns st"
  by (auto simp: enrich_linkedin_def Let_def emit_def update_lead_def calls_def
      split: sum.splits)

lemma enrich_company_effects:
  "\<exists>evs. trace (snd (enrich_company sv lead d st)) = trace st @ evs
     \<and> set evs \<subseteq> {EnrichCompanyData}
     \<and> campaigns (snd (enrich_company sv lead d st)) = campaigns st"
  by (auto simp: enrich_company_def Let_def emit_def update_lead_def calls_def
      split: sum.splits)

lemma enrich_lead_data_effects:
  "\<exists>evs. trace (snd (enrich_lead_data sv self lead st)) = trace st @ evs
     \<and> set evs \<subseteq> {ScrapeProfile, GetRecentActivity, EnrichCompanyData, Commit}
     \<and> (enr_status (fst (enrich_lead_data sv self lead st)) = ''failed'' \<longrightarrow>
          set evs \<subseteq> {ScrapeProfile, GetRecentActivity, EnrichCompanyData})
     \<and> campaigns (snd (enrich_lead_data sv self lead st)) = campaigns st"
proof -
  let ?d0 = "\<lparr> linkedin_profile = None, recent_activity = None,
                 company_intelligence = None \<rparr>"
  obtain r1 st1 where l: "enrich_linkedin sv lead ?d0 st = (r1, st1)"
    by (cases "enrich_linkedin sv lead ?d0 st")
  obtain xs where xs: "trace st1 = trace st @ xs"
      "set xs \<subseteq> {ScrapeProfile, GetRecentActivity}" "campaigns st1 = campaigns st"
    using enrich_linkedin_effects [of sv lead ?d0 st] l by auto
  show ?thesis
  proof (cases r1)
    case (Inl e)
    with l xs show ?thesis
      by (auto simp: enrich_lead_data_def enrichment_failed_def)
  next
    case (Inr d1)
    obtain r2 st2 where c: "enrich_company sv lead d1 st1 = (r2, st2)"
      by (cases "enrich_company sv lead d1 st1")
    obtain ys where ys: "trace st2 = trace st1 @ ys"
        "set ys \<subseteq> {EnrichCompanyData}" "campaigns st2 = campaigns st1"
      using enrich_company_effects [of sv lead d1 st1] c by auto
    show ?thesis
    proof (cases r2)
      case (Inl e)
      with l c Inr xs ys show ?thesis
        by (auto simp: enrich_lead_data_def enrichment_failed_def)
    next
      case r2: (Inr d2)
      with l c Inr xs ys show ?thesis
        by (auto simp: enrich_lead_data_def Let_def utcnow_def db_commit_def emit_def
            update_lead_def)
    qed
  qed
qed

lemma analyze_lead_profile_state:
  "snd (analyze_lead_profile sv ld st) = emit AnalyzeLeadProfile st"
  by (simp add: analyze_lead_profile_def Let_def split: sum.splits loads.splits)

lemma analyze_lead_effects:
  "\<exists>evs. trace (snd (analyze_lead sv self lead d st)) = trace st @ evs
     \<and> set evs \<subseteq> {AnalyzeLeadProfile, Commit}
     \<and> campaigns (snd (analyze_lead sv self lead d st)) = campaigns st"
proof -
  let ?ld = "map_of
            [(''name'', Some (lead_name lead)),
             (''email'', Some (lead_email lead)),
             (''company'', lead_company lead),
             (''job_title'', lead_job_title lead),
             (''location'', lead_location lead)]"
  obtain r st1 where a: "analyze_lead_profile sv ?ld st = (r, st1)"
    by (cases "analyze_lead_profile sv ?ld st")
  have st1: "st1 = emit AnalyzeLeadProfile st"
    using analyze_lead_profile_state [of sv ?ld st] a by simp
  show ?thesis
    using a st1
    by (cases r) (auto simp: analyze_lead_def Let_def db_commit_def emit_def update_lead_def)
qed

lemma refine_effects:
  "\<exists>evs. trace (snd (refine n sv self lead a cc vp e q st)) = trace st @ evs
     \<and> set evs \<subseteq> {GeneratePersonalizedEmail, QualityControl}
     \<and> campaigns (snd (refine n sv self lead a cc vp e q st)) = campaigns st"
proof (induction n arbitrary: e q st)
  case 0
  then show ?case by simp
next
  case (Suc n)
  obtain r st1 where g: "generate_email sv self lead a cc vp st = (r, st1)"
    by (cases "generate_email sv self lead a cc vp st")
  have st1: "st1 = emit GeneratePersonalizedEmail st"
    using generate_email_state [of sv self lead a cc vp st] g by simp
  show ?case
  proof (cases r)
    case (Inl x)
    with g st1 show ?thesis by (simp add: emit_def)
  next
    case (Inr e1)
    show ?thesis
    proof (cases "0.8 \<le> quality_score (quality_control self e1 a)")
      case True
      with g st1 Inr show ?thesis by (simp add: emit_def)
    next
      case False
      let ?st2 = "emit QualityControl st1"
      let ?r = "refine n sv self lead a cc vp (Some e1) (Some (quality_control self e1 a)) ?st2"
      obtain evs where evs: "trace (snd ?r) = trace ?st2 @ evs"
          "set evs \<subseteq> {GeneratePersonalizedEmail, QualityControl}"
          "campaigns (snd ?r) = campaigns ?st2"
        using Suc.IH [of "Some e1" "Some (quality_control self e1 a)" ?st2] by blast
      have eq: "refine (Suc n) sv self lead a cc vp e q st = ?r"
        using g Inr False by (simp add: Let_def)
      have "trace (snd ?r) = trace st @ ([GeneratePersonalizedEmail, QualityControl] @ evs)"
        using evs(1) st1 by (simp add: emit_def)
      moreover have "set ([GeneratePersonalizedEmail, QualityControl] @ evs)
                       \<subseteq> {GeneratePersonalizedEmail, QualityControl}"
        using evs(2) by simp
      moreover have "campaigns (snd ?r) = campaigns st"
        using evs(3) st1 by (simp add: emit_def)
      ultimately show ?thesis unfolding eq by blast
    qed
  qed
qed

lemma refine_some:
  "refine (Suc n) sv self lead a cc vp e q st = (Inr (e', q'), st') \<Longrightarrow>
     \<exists>em. e' = Some em \<and> q' = Some (quality_control self em a)"
proof (induction n arbitrary: e q st)
  case 0
  then show ?case
    by (auto simp: Let_def split: prod.splits sum.splits if_splits)
next
  case (Suc n)
  obtain r st1 where g: "generate_email sv self lead a cc vp st = (r, st1)"
    by (cases "generate_email sv self lead a cc vp st")
  show ?case
  proof (cases r)
    case (Inl x)
    with g Suc.prems show ?thesis by simp
  next
    case (Inr e1)
    show ?thesis
    proof (cases "0.8 \<le> quality_score (quality_control self e1 a)")
      case True
      with g Inr Suc.prems show ?thesis by (auto simp: Let_def)
    next
      case False
      with g Inr Suc.prems have
        "refine (Suc n) sv self lead a cc vp (Some e1) (Some (quality_control self e1 a))
           (emit QualityControl st1) = (Inr (e', q'), st')"
        by (simp add: Let_def)
      then show ?thesis by (rule Suc.IH)
    qed
  qed
qed

lemma fold_max_upper: "x \<in> set xs \<Longrightarrow> x \<le> fold max xs (m::nat)"
proof (induction xs arbitrary: m)
  case Nil
  then show ?case by simp
next
  case (Cons y ys)
  have mono: "\<And>k. k \<le> fold max ys k"
  proof -
    fix k :: nat
    show "k \<le> fold max ys k"
    proof (induction ys arbitrary: k)
      case Nil
      show ?case by simp
    next
      case (Cons z zs)
      have "max z k \<le> fold max zs (max z k)" by (rule Cons.IH)
      then show ?case by simp
    qed
  qed
  show ?case
  proof (cases "x = y")
    case True
    have "max y m \<le> fold max ys (max y m)" by (rule mono)
    with True show ?thesis by simp
  next
    case False
    with Cons.prems have "x \<in> set ys" by simp
    then have "x \<le> fold max ys (max y m)" by (rule Cons.IH)
    then show ?thesis by simp
  qed
qed

lemma fresh_campaign_id_new:
  "c \<in> set (campaigns st) \<Longrightarrow> campaign_id c \<noteq> fresh_campaign_id st"
proof -
  assume "c \<in> set (campaigns st)"
  then have "campaign_id c \<in> set (map campaign_id (campaigns st))" by simp
  then have "campaign_id c \<le> fold max (map campaign_id (campaigns st)) 0"
    by (rule fold_max_upper)
  then show ?thesis by (simp add: fresh_campaign_id_def)
qed

lemma find_fresh:
  "\<forall>c \<in> set cs. campaign_id c \<noteq> i \<Longrightarrow> campaign_id c' = i \<Longrightarrow>
     find (\<lambda>c. campaign_id c = i) (cs @ [c']) = Some c'"
  by (induction cs) auto

lemma find_fresh_update:
  "\<forall>c \<in> set cs. campaign_id c \<noteq> i \<Longrightarrow> campaign_id c' = i \<Longrightarrow> campaign_id (f c') = i \<Longrightarrow>
     find (\<lambda>c. campaign_id c = i)
       (map (\<lambda>c. if campaign_id c = i then f c else c) (cs @ [c'])) = Some (f c')"
  by (induction cs) auto

lemma create_campaign_ok:
  assumes "subject_line em = Some subj" and "email_body em = Some body"
  shows "\<exists>c. create_campaign self lead (Some em) a q st =
             (Inr c, st\<lparr>campaigns := campaigns st @ [c],
                        trace := trace st @ [AddCampaign (fresh_campaign_id st), Commit]\<rparr>)
           \<and> campaign_id c = fresh_campaign_id st
           \<and> campaign_lead_id c = lead_id lead
           \<and> campaign_subject_line c = subj
           \<and> campaign_email_body c = body
           \<and> campaign_status c = READY
           \<and> campaign_sent_at c = None"
  using assms
  by (simp add: create_campaign_def db_add_def db_commit_def emit_def Let_def)

lemma create_campaign_fails:
  "create_campaign self lead e a q st = (Inl x, st') \<Longrightarrow>
     st' = st \<and> (e = None \<or> (\<exists>em. e = Some em \<and> (subject_line em = None \<or> email_body em = None)))"
  by (auto simp: create_campaign_def db_add_def Let_def split: option.splits prod.splits)

lemma create_campaign_succeeds:
  "create_campaign self lead e a q st = (Inr c, st') \<Longrightarrow>
     \<exists>em subj body. e = Some em \<and> subject_line em = Some subj \<and> email_body em = Some body"
  by (auto simp: create_campaign_def db_add_def Let_def split: option.splits prod.splits)

lemma send_email_state:
  "send_email c st =
     (\<lparr> success = True, sent_at = clock st \<rparr>,
      st\<lparr>campaigns := map (\<lambda>x. if campaign_id x = campaign_id c
                                then x\<lparr>campaign_status := SENT,
                                       campaign_sent_at := Some (clock st)\<rparr>
                                else x) (campaigns st),
         clock := Suc (clock st),
         trace := trace st @ [SendEmail (campaign_id c), Commit]\<rparr>)"
  by (simp add: send_email_def Let_def utcnow_def emit_def update_campaign_def db_commit_def)

lemma persist_and_send_ok:
  assumes s: "subject_line em = Some subj" and b: "email_body em = Some body"
  shows "res_campaign_id (fst (persist_and_send self lead auto a (Some em) (Some qc) res st))
           = Some (fresh_campaign_id st)
       \<and> status (fst (persist_and_send self lead auto a (Some em) (Some qc) res st))
           = (if auto \<and> 0.8 \<le> quality_score qc then ''sent'' else ''pending_review'')
       \<and> trace (snd (persist_and_send self lead auto a (Some em) (Some qc) res st))
           = trace st @ [AddCampaign (fresh_campaign_id st), Commit]
             @ (if auto \<and> 0.8 \<le> quality_score qc
                then [SendEmail (fresh_campaign_id st), Commit] else [])
       \<and> (\<exists>c. get_campaign (snd (persist_and_send self lead auto a (Some em) (Some qc) res st))
                  (fresh_campaign_id st) = Some c
              \<and> campaign_lead_id c = lead_id lead
              \<and> campaign_subject_line c = subj
              \<and> campaign_email_body c = body
              \<and> campaign_status c = (if auto \<and> 0.8 \<le> quality_score qc then SENT else READY)
              \<and> campaign_sent_at c
                  = (if auto \<and> 0.8 \<le> quality_score qc then Some (clock st) else None))"
proof -
  obtain c where c: "create_campaign self lead (Some em) a (Some qc) st =
             (Inr c, st\<lparr>campaigns := campaigns st @ [c],
                        trace := trace st @ [AddCampaign (fresh_campaign_id st), Commit]\<rparr>)"
      "campaign_id c = fresh_campaign_id st" "campaign_lead_id c = lead_id lead"
      "campaign_subject_line c = subj" "campaign_email_body c = body"
      "campaign_status c = READY" "campaign_sent_at c = None"
    using create_campaign_ok [OF s b, of self lead a "Some qc" st] by blast
  have fresh: "\<forall>x \<in> set (campaigns st). campaign_id x \<noteq> fresh_campaign_id st"
    using fresh_campaign_id_new by blast
  show ?thesis
  proof (cases "auto \<and> 0.8 \<le> quality_score qc")
    case True
    have f: "find (\<lambda>x. campaign_id x = fresh_campaign_id st)
               (map (\<lambda>x. if campaign_id x = fresh_campaign_id st
                          then x\<lparr>campaign_status := SENT, campaign_sent_at := Some (clock st)\<rparr>
                          else x) (campaigns st @ [c]))
             = Some (c\<lparr>campaign_status := SENT, campaign_sent_at := Some (clock st)\<rparr>)"
      by (rule find_fresh_update) (use fresh c(2) in auto)
    from True c f show ?thesis
      by (simp add: persist_and_send_def send_email_state get_campaign_def
          cong del: if_weak_cong)
  next
    case False
    have f: "find (\<lambda>x. campaign_id x = fresh_campaign_id st) (campaigns st @ [c]) = Some c"
      by (rule find_fresh) (use fresh c(2) in auto)
    from False c f show ?thesis
      by (cases auto) (simp_all add: persist_and_send_def get_campaign_def Let_def)
  qed
qed

lemma persist_and_send_error:
  assumes "subject_line em = None \<or> email_body em = None"
  shows "status (fst (persist_and_send self lead auto a (Some em) q res st)) = ''error''
       \<and> snd (persist_and_send self lead auto a (Some em) q res st) = st"
  using assms
  by (auto simp: persist_and_send_def create_campaign_def on_error_def split: option.splits)

subsection \<open>The stage sequencer\<close>

lemma process_lead_enrichment_failed:
  assumes "enr_status (fst (enrich_lead_data sv self lead st)) = ''failed''"
  shows "status (fst (process_lead sv self lead cc vp auto st)) = ''enrichment_failed''
       \<and> res_campaign_id (fst (process_lead sv self lead cc vp auto st)) = None
       \<and> snd (process_lead sv self lead cc vp auto st) = snd (enrich_lead_data sv self lead st)"
  using assms by (simp add: process_lead_def initial_result_def Let_def case_prod_beta)

lemma process_lead_analysis_error:
  assumes "enr_status (fst (enrich_lead_data sv self lead st)) \<noteq> ''failed''"
    and "analyze_lead sv self lead (enr_data (fst (enrich_lead_data sv self lead st)))
           (snd (enrich_lead_data sv self lead st)) = (Inl x, st2)"
  shows "status (fst (process_lead sv self lead cc vp auto st)) = ''error''
       \<and> snd (process_lead sv self lead cc vp auto st) = st2"
  using assms by (simp add: process_lead_def initial_result_def Let_def case_prod_beta on_error_def)

lemma process_lead_low_relevance:
  assumes "enr_status (fst (enrich_lead_data sv self lead st)) \<noteq> ''failed''"
    and "analyze_lead sv self lead (enr_data (fst (enrich_lead_data sv self lead st)))
           (snd (enrich_lead_data sv self lead st)) = (Inr a, st2)"
    and "get_default (relevance_score a) 0 < min_personalization_score self"
  shows "status (fst (process_lead sv self lead cc vp auto st)) = ''low_relevance''
       \<and> res_campaign_id (fst (process_lead sv self lead cc vp auto st)) = None
       \<and> snd (process_lead sv self lead cc vp auto st) = st2"
  using assms by (simp add: process_lead_def initial_result_def Let_def case_prod_beta)

lemma process_lead_generation_error:
  assumes "enr_status (fst (enrich_lead_data sv self lead st)) \<noteq> ''failed''"
    and "analyze_lead sv self lead (enr_data (fst (enrich_lead_data sv self lead st)))
           (snd (enrich_lead_data sv self lead st)) = (Inr a, st2)"
    and "\<not> get_default (relevance_score a) 0 < min_personalization_score self"
    and "refine 2 sv self lead a cc vp None None st2 = (Inl x, st3)"
  shows "status (fst (process_lead sv self lead cc vp auto st)) = ''error''
       \<and> snd (process_lead sv self lead cc vp auto st) = st3"
  using assms by (simp add: process_lead_def initial_result_def Let_def case_prod_beta on_error_def)

lemma process_lead_generated:
  assumes "enr_status (fst (enrich_lead_data sv self lead st)) \<noteq> ''failed''"
    and "analyze_lead sv self lead (enr_data (fst (enrich_lead_data sv self lead st)))
           (snd (enrich_lead_data sv self lead st)) = (Inr a, st2)"
    and "\<not> get_default (relevance_score a) 0 < min_personalization_score self"
    and "refine 2 sv self lead a cc vp None None st2 = (Inr (e, q), st3)"
  shows "\<exists>res. process_lead sv self lead cc vp auto st =
                 persist_and_send self lead auto a e q res st3"
  using assms by (auto simp: process_lead_def initial_result_def Let_def case_prod_beta)

text \<open>
  C3. When enrichment reports failure, the run ends as \<open>enrichment_failed\<close> and the only
  events it added are scraper and company-gatherer calls: no analysis, no generation, no
  campaign creation. When the analysis relevance is below the configured minimum, the run
  ends as \<open>low_relevance\<close> and added only enrichment events, the analysis call and
  commits: no generation, no campaign creation. In both cases the campaign table is
  unchanged and the result carries no campaign id.
\<close>

theorem early_exits_skip_generation_and_persistence:
  "(enr_status (fst (enrich_lead_data sv self lead st)) = ''failed'' \<longrightarrow>
      status (fst (process_lead sv self lead cc vp auto st)) = ''enrichment_failed''
      \<and> res_campaign_id (fst (process_lead sv self lead cc vp auto st)) = None
      \<and> campaigns (snd (process_lead sv self lead cc vp auto st)) = campaigns st
      \<and> (\<exists>evs. trace (snd (process_lead sv self lead cc vp auto st)) = trace st @ evs
            \<and> set evs \<subseteq> {ScrapeProfile, GetRecentActivity, EnrichCompanyData}))
   \<and> (\<forall>a st2.
        enr_status (fst (enrich_lead_data sv self lead st)) \<noteq> ''failed''
        \<and> analyze_lead sv self lead (enr_data (fst (enrich_lead_data sv self lead st)))
             (snd (enrich_lead_data sv self lead st)) = (Inr a, st2)
        \<and> get_default (relevance_score a) 0 < min_personalization_score self
        \<longrightarrow>
        status (fst (process_lead sv self lead cc vp auto st)) = ''low_relevance''
        \<and> res_campaign_id (fst (process_lead sv self lead cc vp auto st)) = None
        \<and> campaigns (snd (process_lead sv self lead cc vp auto st)) = campaigns st
        \<and> (\<exists>evs. trace (snd (process_lead sv self lead cc vp auto st)) = trace st @ evs
              \<and> set evs \<subseteq> {ScrapeProfile, GetRecentActivity, EnrichCompanyData, Commit,
                            AnalyzeLeadProfile}))"
proof (intro conjI allI impI)
  assume f: "enr_status (fst (enrich_lead_data sv self lead st)) = ''failed''"
  note P = process_lead_enrichment_failed [OF f, of cc vp auto]
  obtain evs where evs: "trace (snd (enrich_lead_data sv self lead st)) = trace st @ evs"
      "set evs \<subseteq> {ScrapeProfile, GetRecentActivity, EnrichCompanyData}"
      "campaigns (snd (enrich_lead_data sv self lead st)) = campaigns st"
    using enrich_lead_data_effects [of sv self lead st] f by blast
  show "status (fst (process_lead sv self lead cc vp auto st)) = ''enrichment_failed''"
    using P by blast
  show "res_campaign_id (fst (process_lead sv self lead cc vp auto st)) = None"
    using P by blast
  show "campaigns (snd (process_lead sv self lead cc vp auto st)) = campaigns st"
    using P evs(3) by simp
  show "\<exists>evs. trace (snd (process_lead sv self lead cc vp auto st)) = trace st @ evs
          \<and> set evs \<subseteq> {ScrapeProfile, GetRecentActivity, EnrichCompanyData}"
    using P evs(1,2) by auto
next
  fix a st2
  assume h: "enr_status (fst (enrich_lead_data sv self lead st)) \<noteq> ''failed''
        \<and> analyze_lead sv self lead (enr_data (fst (enrich_lead_data sv self lead st)))
             (snd (enrich_lead_data sv self lead st)) = (Inr a, st2)
        \<and> get_default (relevance_score a) 0 < min_personalization_score self"
  then have P: "status (fst (process_lead sv self lead cc vp auto st)) = ''low_relevance''
       \<and> res_campaign_id (fst (process_lead sv self lead cc vp auto st)) = None
       \<and> snd (process_lead sv self lead cc vp auto st) = st2"
    by (intro process_lead_low_relevance) auto
  let ?st1 = "snd (enrich_lead_data sv self lead st)"
  obtain xs where xs: "trace ?st1 = trace st @ xs"
      "set xs \<subseteq> {ScrapeProfile, GetRecentActivity, EnrichCompanyData, Commit}"
      "campaigns ?st1 = campaigns st"
    using enrich_lead_data_effects [of sv self lead st] by blast
  obtain ys where ys: "trace st2 = trace ?st1 @ ys"
      "set ys \<subseteq> {AnalyzeLeadProfile, Commit}" "campaigns st2 = campaigns ?st1"
    using analyze_lead_effects
      [of sv self lead "enr_data (fst (enrich_lead_data sv self lead st))" ?st1] h
    by auto
  show "status (fst (process_lead sv self lead cc vp auto st)) = ''low_relevance''"
    using P by blast
  show "res_campaign_id (fst (process_lead sv self lead cc vp auto st)) = None"
    using P by blast
  show "campaigns (snd (process_lead sv self lead cc vp auto st)) = campaigns st"
    using P xs(3) ys(3) by simp
  have "trace st2 = trace st @ (xs @ ys)" using xs(1) ys(1) by simp
  moreover have "set (xs @ ys) \<subseteq> {ScrapeProfile, GetRecentActivity, EnrichCompanyData,
                    Commit, AnalyzeLeadProfile}"
    using xs(2) ys(2) by auto
  ultimately show "\<exists>evs. trace (snd (process_lead sv self lead cc vp auto st)) = trace st @ evs
          \<and> set evs \<subseteq> {ScrapeProfile, GetRecentActivity, EnrichCompanyData, Commit,
                        AnalyzeLeadProfile}"
    using P by blast
qed


lemma process_lead_status:
  "status (fst (process_lead sv self lead cc vp auto st))
     \<in> {''enrichment_failed'', ''low_relevance'', ''error'', ''sent'', ''pending_review''}
   \<and> (campaigns (snd (process_lead sv self lead cc vp auto st)) \<noteq> campaigns st \<longrightarrow>
        status (fst (process_lead sv self lead cc vp auto st)) \<in> {''sent'', ''pending_review''})"
proof (cases "enr_status (fst (enrich_lead_data sv self lead st)) = ''failed''")
  case True
  have "campaigns (snd (enrich_lead_data sv self lead st)) = campaigns st"
    using enrich_lead_data_effects [of sv self lead st] by blast
  with process_lead_enrichment_failed [OF True, of cc vp auto] show ?thesis by simp
next
  case False
  let ?st1 = "snd (enrich_lead_data sv self lead st)"
  let ?d = "enr_data (fst (enrich_lead_data sv self lead st))"
  have c1: "campaigns ?st1 = campaigns st"
    using enrich_lead_data_effects [of sv self lead st] by blast
  obtain r st2 where an: "analyze_lead sv self lead ?d ?st1 = (r, st2)"
    by (cases "analyze_lead sv self lead ?d ?st1")
  have c2: "campaigns st2 = campaigns ?st1"
    using analyze_lead_effects [of sv self lead ?d ?st1] an by auto
  show ?thesis
  proof (cases r)
    case (Inl x)
    with process_lead_analysis_error [OF False, of x st2 cc vp auto] an c1 c2
    show ?thesis by simp
  next
    case (Inr a)
    note an' = an [unfolded Inr]
    show ?thesis
    proof (cases "get_default (relevance_score a) 0 < min_personalization_score self")
      case True
      with process_lead_low_relevance [OF False an' True, of cc vp auto] c1 c2
      show ?thesis by simp
    next
      case high: False
      obtain g st3 where rf: "refine 2 sv self lead a cc vp None None st2 = (g, st3)"
        by (cases "refine 2 sv self lead a cc vp None None st2")
      have c3: "campaigns st3 = campaigns st2"
        using refine_effects [of 2 sv self lead a cc vp None None st2] rf by auto
      show ?thesis
      proof (cases g)
        case (Inl x)
        with process_lead_generation_error [OF False an' high, of cc vp x st3 auto] rf c1 c2 c3
        show ?thesis by simp
      next
        case (Inr eq)
        obtain e q where eq: "eq = (e, q)" by (cases eq)
        have rf': "refine (Suc 1) sv self lead a cc vp None None st2 = (Inr (e, q), st3)"
          using rf Inr eq by (simp add: numeral_2_eq_2)
        obtain em where em: "e = Some em" "q = Some (quality_control self em a)"
          using refine_some [OF rf'] by blast
        have rf2: "refine 2 sv self lead a cc vp None None st2 = (Inr (e, q), st3)"
          using rf Inr eq by simp
        obtain res where P: "process_lead sv self lead cc vp auto st =
            persist_and_send self lead auto a e q res st3"
          using process_lead_generated [OF False an' high rf2, of auto] by blast
        show ?thesis
        proof (cases "subject_line em = None \<or> email_body em = None")
          case True
          from persist_and_send_error [OF True, of self lead auto a q res st3]
          show ?thesis unfolding P em using c1 c2 c3 by simp
        next
          case ok: False
          then obtain subj body where sb: "subject_line em = Some subj" "email_body em = Some body"
            by auto
          from persist_and_send_ok [OF sb, of self lead auto a "quality_control self em a" res st3]
          show ?thesis unfolding P em by simp
        qed
      qed
    qed
  qed
qed

subsection \<open>The batch runner\<close>


lemma gather_results:
  "r \<in> set (fst (gather sv self cc vp auto ls st)) \<Longrightarrow>
     \<exists>res. r = Inr res
       \<and> status res \<in> {''enrichment_failed'', ''low_relevance'', ''error'', ''sent'',
                        ''pending_review''}"
proof (induction ls arbitrary: st)
  case Nil
  then show ?case by simp
next
  case (Cons l ls)
  let ?p = "process_lead sv self l cc vp auto st"
  from Cons.prems have "r = Inr (fst ?p) \<or> r \<in> set (fst (gather sv self cc vp auto ls (snd ?p)))"
    by (auto simp: Let_def case_prod_beta)
  then show ?case
  proof
    assume "r = Inr (fst ?p)"
    with process_lead_status [of sv self l cc vp auto st] show ?thesis by blast
  next
    assume "r \<in> set (fst (gather sv self cc vp auto ls (snd ?p)))"
    then show ?thesis by (rule Cons.IH)
  qed
qed




lemma count_ones: "sum_list (map (\<lambda>r. Suc 0) (filter P xs)) = length (filter P xs)"
  by (induction xs) auto

lemma compile_statistics_results:
  assumes "\<forall>r \<in> set rs. \<not> isl r"
  shows "compile_statistics rs = Inr
        \<lparr> total = length rs,
          successful = length (filter (\<lambda>r. status_of r = ''ready'' \<or> status_of r = ''sent'') rs),
          sent = length (filter (\<lambda>r. status_of r = ''sent'') rs),
          low_relevance = length (filter (\<lambda>r. status_of r = ''low_relevance'') rs),
          failed = length (filter (\<lambda>r. status_of r = ''error''
                                       \<or> status_of r = ''enrichment_failed'') rs) \<rparr>"
proof -
  have "\<not> list_ex isl rs" using assms by (simp add: list_ex_iff)
  moreover have "(\<lambda>r. status_of r \<in> set [''error'', ''enrichment_failed''])
          = (\<lambda>r. status_of r = ''error'' \<or> status_of r = ''enrichment_failed'')"
    by auto
  ultimately show ?thesis
    by (simp add: compile_statistics_def count_ones)
qed

lemma compile_statistics_inr:
  "compile_statistics rs = Inr s \<Longrightarrow> \<forall>r \<in> set rs. \<not> isl r"
  by (auto simp: compile_statistics_def list_ex_iff split: if_splits)

lemma batch_unfold:
  assumes "batch_process_leads sv self ids cc vp auto mc st = Some (Inr br, st')"
  shows "results br = fst (gather sv self cc vp auto
                              (filter (\<lambda>l. lead_id l \<in> set ids) (leads st)) st)
       \<and> compile_statistics (results br) = Inr (statistics br)"
  using assms
  by (auto simp: batch_process_leads_def Let_def case_prod_beta split: if_splits sum.splits)

lemma batch_returns:
  assumes "0 < mc"
  shows "\<exists>br st'. batch_process_leads sv self ids cc vp auto mc st = Some (Inr br, st')"
proof -
  let ?ls = "filter (\<lambda>l. lead_id l \<in> set ids) (leads st)"
  let ?g = "gather sv self cc vp auto ?ls st"
  have "\<forall>r \<in> set (fst ?g). \<not> isl r"
  proof
    fix r
    assume "r \<in> set (fst ?g)"
    then obtain res where "r = Inr res"
      using gather_results [of r sv self cc vp auto ?ls st] by blast
    then show "\<not> isl r" by simp
  qed
  from compile_statistics_results [OF this] assms show ?thesis
    by (simp add: batch_process_leads_def Let_def case_prod_beta)
qed




text \<open>
  C6. In every batch result, \<open>successful\<close> counts the outcomes with status \<open>ready\<close> or
  \<open>sent\<close>, \<open>sent\<close> those with status \<open>sent\<close>, \<open>low_relevance\<close> those with status
  \<open>low_relevance\<close>, and \<open>failed\<close> those with status \<open>error\<close> or \<open>enrichment_failed\<close>.
  Outcomes with status \<open>pending_review\<close> or \<open>send_failed\<close> are counted in neither
  \<open>successful\<close> nor \<open>failed\<close>: the statistics of the results without them have the same
  two counts.
\<close>

theorem batch_statistics_count_statuses:
  assumes "batch_process_leads sv self ids cc vp auto mc st = Some (Inr br, st')"
  shows "total (statistics br) = length (results br)
       \<and> successful (statistics br)
           = length (filter (\<lambda>r. status_of r = ''ready'' \<or> status_of r = ''sent'') (results br))
       \<and> sent (statistics br) = length (filter (\<lambda>r. status_of r = ''sent'') (results br))
       \<and> low_relevance (statistics br)
           = length (filter (\<lambda>r. status_of r = ''low_relevance'') (results br))
       \<and> failed (statistics br)
           = length (filter (\<lambda>r. status_of r = ''error'' \<or> status_of r = ''enrichment_failed'')
                       (results br))
       \<and> (\<exists>s. compile_statistics
                 (filter (\<lambda>r. status_of r \<noteq> ''pending_review'' \<and> status_of r \<noteq> ''send_failed'')
                    (results br)) = Inr s
              \<and> successful s = successful (statistics br)
              \<and> failed s = failed (statistics br))"
proof -
  let ?keep = "filter (\<lambda>r. status_of r \<noteq> ''pending_review'' \<and> status_of r \<noteq> ''send_failed'')
                 (results br)"
  have c: "compile_statistics (results br) = Inr (statistics br)"
    using batch_unfold [OF assms] by blast
  have n: "\<forall>x \<in> set (results br). \<not> isl x"
    using compile_statistics_inr [OF c] .
  note s = c [unfolded compile_statistics_results [OF n], simplified]
  have nk: "\<forall>x \<in> set ?keep. \<not> isl x" using n by simp
  have f1: "(\<lambda>x. status_of x \<noteq> ''pending_review'' \<and> status_of x \<noteq> ''send_failed''
                 \<and> (status_of x = ''ready'' \<or> status_of x = ''sent''))
            = (\<lambda>r. status_of r = ''ready'' \<or> status_of r = ''sent'')"
    by auto
  have f2: "(\<lambda>x. status_of x \<noteq> ''pending_review'' \<and> status_of x \<noteq> ''send_failed''
                 \<and> (status_of x = ''error'' \<or> status_of x = ''enrichment_failed''))
            = (\<lambda>r. status_of r = ''error'' \<or> status_of r = ''enrichment_failed'')"
    by auto
  have k: "\<exists>s. compile_statistics ?keep = Inr s
              \<and> successful s = successful (statistics br)
              \<and> failed s = failed (statistics br)"
    unfolding compile_statistics_results [OF nk]
    by (simp add: s [symmetric] f1 f2)
  show ?thesis
    using k by (simp add: s [symmetric])
qed


subsection \<open>The three thresholds\<close>

lemma quality_control_settings:
  "quality_control self e a = quality_control self' e a"
  by (simp add: quality_control_def)

lemma generate_email_settings:
  "generate_email sv self lead a cc vp st = generate_email sv self' lead a cc vp st"
  by (simp add: generate_email_def)

lemma refine_settings:
  "refine n sv self lead a cc vp e q st = refine n sv self' lead a cc vp e q st"
proof (induction n arbitrary: e q st)
  case 0
  show ?case by simp
next
  case (Suc n)
  show ?case
    by (simp add: generate_email_settings [of sv self lead a cc vp st self']
        quality_control_settings [of self _ a self'] Suc.IH Let_def
        split: prod.splits sum.splits)
qed

lemma persist_and_send_status_settings:
  "status (fst (persist_and_send self lead auto a e q res st))
     = status (fst (persist_and_send self' lead auto a e q res st))"
  by (simp add: persist_and_send_def create_campaign_def db_add_def db_commit_def
      on_error_def send_email_state Let_def split: option.splits)

text \<open>
  C7 (amended). The evaluator's \<open>passes_qa\<close> flag is \<open>score \<ge> 0.70\<close>; the loop accepts
  an attempt exactly when its score is at least 0.80; a persisted draft is dispatched
  exactly when \<open>auto_send\<close> holds and the score is at least 0.80. The three thresholds are
  literals: the flag, the loop and the send decision are the same under any two settings.
\<close>

theorem thresholds_are_literals:
  "passes_qa (quality_control self e a) = (0.7 \<le> quality_score (quality_control self e a))
   \<and> (\<forall>e1 st1. generate_email sv self lead a cc vp st = (Inr e1, st1) \<longrightarrow>
        refine (Suc n) sv self lead a cc vp e0 q0 st =
          (if 0.8 \<le> quality_score (quality_control self e1 a)
           then (Inr (Some e1, Some (quality_control self e1 a)), emit QualityControl st1)
           else refine n sv self lead a cc vp (Some e1) (Some (quality_control self e1 a))
                  (emit QualityControl st1)))
   \<and> (\<forall>em subj body. subject_line em = Some subj \<and> email_body em = Some body \<longrightarrow>
        (status (fst (persist_and_send self lead auto a (Some em) (Some qc) res st)) = ''sent'')
          = (auto \<and> 0.8 \<le> quality_score qc))
   \<and> quality_control self e a = quality_control self' e a
   \<and> refine n sv self lead a cc vp e0 q0 st = refine n sv self' lead a cc vp e0 q0 st
   \<and> status (fst (persist_and_send self lead auto a e' q' res st))
       = status (fst (persist_and_send self' lead auto a e' q' res st))"
proof (intro conjI allI impI)
  show "passes_qa (quality_control self e a) = (0.7 \<le> quality_score (quality_control self e a))"
    by (simp add: quality_control_def Let_def case_prod_beta)
next
  fix e1 st1
  assume "generate_email sv self lead a cc vp st = (Inr e1, st1)"
  then show "refine (Suc n) sv self lead a cc vp e0 q0 st =
          (if 0.8 \<le> quality_score (quality_control self e1 a)
           then (Inr (Some e1, Some (quality_control self e1 a)), emit QualityControl st1)
           else refine n sv self lead a cc vp (Some e1) (Some (quality_control self e1 a))
                  (emit QualityControl st1))"
    by (simp add: Let_def)
next
  fix em :: email and subj body :: string
  assume h: "subject_line em = Some subj \<and> email_body em = Some body"
  then have s: "subject_line em = Some subj" and b: "email_body em = Some body" by auto
  from persist_and_send_ok [OF s b, of self lead auto a qc res st]
  show "(status (fst (persist_and_send self lead auto a (Some em) (Some qc) res st)) = ''sent'')
          = (auto \<and> 0.8 \<le> quality_score qc)"
    by simp
next
  show "quality_control self e a = quality_control self' e a"
    by (rule quality_control_settings)
  show "refine n sv self lead a cc vp e0 q0 st = refine n sv self' lead a cc vp e0 q0 st"
    by (rule refine_settings)
  show "status (fst (persist_and_send self lead auto a e' q' res st))
       = status (fst (persist_and_send self' lead auto a e' q' res st))"
    by (rule persist_and_send_status_settings)
qed

section \<open>Concrete runs\<close>



text \<open>
  C8 (failing input). A lead without a company reaches the email capability with
  \<open>company\<close> bound to \<open>None\<close>; when the response does not parse, the fallback raises
  \<^verbatim>\<open>TypeError\<close> instead of returning the fallback draft.
\<close>

theorem fallback_email_raises_without_company:
  "lead_company ann = None
   \<and> call_kimi plain_text_services (calls store) = Inr ''I am sorry, I cannot write this email.''
   \<and> extract_json ''I am sorry, I cannot write this email.''
       = Inr ''I am sorry, I cannot write this email.''
   \<and> loads_email plain_text_services ''I am sorry, I cannot write this email.''
       = JSONDecodeError ''Expecting value: line 1 column 1 (char 0)''
   \<and> fst (generate_email plain_text_services default_settings ann (analysis_with 0.92)
            ''ctx'' ''vp'' store)
       = Inl (TypeError ''can only concatenate str (not NoneType) to str'')"
  by code_simp

subsection \<open>Shared evaluations\<close>

lemma strong_draft_checks:
  "personalization_ok strong_draft \<and> length_ok strong_draft
   \<and> cta_ok strong_draft \<and> spam_free strong_draft"
proof -
  have "personalization_ok strong_draft" by code_simp
  moreover have "length_ok strong_draft" by code_simp
  moreover have "cta_ok strong_draft" by code_simp
  moreover have "spam_free strong_draft" by code_simp
  ultimately show ?thesis by blast
qed

lemma strong_draft_score:
  "quality_score (quality_control self strong_draft a) = 0.9 + relevance_contribution a"
  using quality_score_sum [of self strong_draft a] strong_draft_checks
  by (simp add: weight_def)


lemma strong_draft_accepted:
  "0.8 \<le> quality_score (quality_control self strong_draft (analysis_with 0.92))"
  by (simp add: strong_draft_score relevance_contribution_def analysis_with_def
      get_default_def)


lemma fenced_empty_object: "extract_json ''```json {} ```'' = Inr ''{}''"
  by code_simp

lemma mock_generate:
  "generate_email mock_services self lead a cc vp st
     = (Inr strong_draft, emit GeneratePersonalizedEmail st)"
  by (simp add: generate_email_def generate_personalized_email_def Let_def
      mock_services_def plain_text_services_def fenced_empty_object)




lemma ann_enriched:
  "enr_status (fst (enrich_lead_data sv default_settings ann store)) \<noteq> ''failed''
   \<and> enr_data (fst (enrich_lead_data sv default_settings ann store))
       = \<lparr> linkedin_profile = None, recent_activity = None, company_intelligence = None \<rparr>"
  by (simp add: enrich_lead_data_def enrich_linkedin_def enrich_company_def truthy_def
      ann_def Let_def utcnow_def)

lemma mock_analysis:
  "loads_analysis sv = (\<lambda>s. Dict (analysis_with r)) \<Longrightarrow>
   call_kimi sv = (\<lambda>k. Inr ''```json {} ```'') \<Longrightarrow>
   fst (analyze_lead sv self lead d st) = Inr (analysis_with r)"
  by (simp add: analyze_lead_def analyze_lead_profile_def Let_def fenced_empty_object)




subsection \<open>Witnesses and counterexamples\<close>


text \<open>
  The witness of C3: the profile scraper raises for Bob, who has a profile reference;
  the analysis of Ann has relevance 0.4 under a minimum of 0.7.
\<close>

theorem early_exits_witness:
  "enr_status (fst (enrich_lead_data offline_services default_settings bob store)) = ''failed''
   \<and> status (fst (process_lead offline_services default_settings bob ''ctx'' ''vp'' True store))
       = ''enrichment_failed''
   \<and> campaigns (snd (process_lead offline_services default_settings bob ''ctx'' ''vp'' True
                        store)) = campaigns store
   \<and> trace (snd (process_lead offline_services default_settings bob ''ctx'' ''vp'' True store))
       = [ScrapeProfile]
   \<and> enr_status (fst (enrich_lead_data cold_services default_settings ann store)) \<noteq> ''failed''
   \<and> fst (analyze_lead cold_services default_settings ann
            (enr_data (fst (enrich_lead_data cold_services default_settings ann store)))
            (snd (enrich_lead_data cold_services default_settings ann store)))
       = Inr (analysis_with 0.4)
   \<and> get_default (relevance_score (analysis_with 0.4)) 0
       < min_personalization_score default_settings
   \<and> status (fst (process_lead cold_services default_settings ann ''ctx'' ''vp'' True store))
       = ''low_relevance''
   \<and> campaigns (snd (process_lead cold_services default_settings ann ''ctx'' ''vp'' True store))
       = campaigns store
   \<and> trace (snd (process_lead cold_services default_settings ann ''ctx'' ''vp'' True store))
       = [Commit, AnalyzeLeadProfile, Commit]"
proof -
  note F = early_exits_skip_generation_and_persistence
    [of offline_services default_settings bob store "''ctx''" "''vp''" True]
  note L = early_exits_skip_generation_and_persistence
    [of cold_services default_settings ann store "''ctx''" "''vp''" True]
  let ?e = "enrich_lead_data cold_services default_settings ann store"
  let ?a = "analyze_lead cold_services default_settings ann (enr_data (fst ?e)) (snd ?e)"
  have f: "enr_status (fst (enrich_lead_data offline_services default_settings bob store))
             = ''failed''"
    by code_simp
  have ft: "trace (snd (process_lead offline_services default_settings bob ''ctx'' ''vp'' True
                          store)) = [ScrapeProfile]"
    by code_simp
  have ok: "enr_status (fst ?e) \<noteq> ''failed''"
    using ann_enriched by blast
  have a: "fst ?a = Inr (analysis_with 0.4)"
    by (rule mock_analysis)
       (simp_all add: cold_services_def mock_services_def plain_text_services_def)
  then have a': "?a = (Inr (analysis_with 0.4), snd ?a)"
    by (simp add: prod_eq_iff)
  have low: "get_default (relevance_score (analysis_with 0.4)) 0
               < min_personalization_score default_settings"
    by (simp add: analysis_with_def get_default_def default_settings_def)
  have lt: "trace (snd (process_lead cold_services default_settings ann ''ctx'' ''vp'' True
                          store)) = [Commit, AnalyzeLeadProfile, Commit]"
    by code_simp
  from F f have
    "status (fst (process_lead offline_services default_settings bob ''ctx'' ''vp'' True store))
       = ''enrichment_failed''"
    "campaigns (snd (process_lead offline_services default_settings bob ''ctx'' ''vp'' True
                        store)) = campaigns store"
    by blast+
  moreover from L ok a' low have
    "status (fst (process_lead cold_services default_settings ann ''ctx'' ''vp'' True store))
       = ''low_relevance''"
    "campaigns (snd (process_lead cold_services default_settings ann ''ctx'' ''vp'' True store))
       = campaigns store"
    by blast+
  ultimately show ?thesis
    using f ft ok a low lt by blast
qed



lemma batch_statistics_some:
  "r = Some (Inr br, st') \<Longrightarrow> batch_statistics r = Some (statistics br)"
  by (simp add: batch_statistics_def)



text \<open>
  The witness of C6: Ann's two drafts stay below 0.80, so she ends as
  \<open>pending_review\<close> and is counted nowhere; Bob's enrichment fails and is counted as
  failed.
\<close>

theorem batch_statistics_count_statuses_witness:
  "batch_statuses
     (batch_process_leads weak_offline_services default_settings [1, 2] ''ctx'' ''vp'' True 5
        store)
     = [''pending_review'', ''enrichment_failed'']
   \<and> batch_statistics
       (batch_process_leads weak_offline_services default_settings [1, 2] ''ctx'' ''vp'' True 5
          store)
     = Some \<lparr> total = 2, successful = 0, sent = 0, low_relevance = 0, failed = 1 \<rparr>"
proof -
  let ?r = "batch_process_leads weak_offline_services default_settings [1, 2] ''ctx'' ''vp''
              True 5 store"
  obtain br st' where b: "?r = Some (Inr br, st')"
    using batch_returns [of 5 weak_offline_services default_settings "[1, 2]" "''ctx''" "''vp''"
        True store]
    by auto
  note T = batch_statistics_count_statuses [OF b]
  note t1 = T [THEN conjunct1]
  note t2 = T [THEN conjunct2, THEN conjunct1]
  note t3 = T [THEN conjunct2, THEN conjunct2, THEN conjunct1]
  note t4 = T [THEN conjunct2, THEN conjunct2, THEN conjunct2, THEN conjunct1]
  note t5 = T [THEN conjunct2, THEN conjunct2, THEN conjunct2, THEN conjunct2, THEN conjunct1]
  have st: "batch_statuses ?r = [''pending_review'', ''enrichment_failed'']"
    by code_simp
  have rs: "map status_of (results br) = [''pending_review'', ''enrichment_failed'']"
    using st unfolding b by (simp add: batch_statuses_def)
  have len: "\<And>P. length (filter (\<lambda>r. P (status_of r)) (results br))
               = length (filter P (map status_of (results br)))"
    by (simp add: filter_map comp_def)
  have l: "length (results br) = length (map status_of (results br))" by simp
  have t: "total (statistics br) = 2"
    using t1 unfolding l rs by simp
  have s: "successful (statistics br) = 0"
    using t2 unfolding len [of "\<lambda>s. s = ''ready'' \<or> s = ''sent''"] rs by simp
  have e: "sent (statistics br) = 0"
    using t3 unfolding len [of "\<lambda>s. s = ''sent''"] rs by simp
  have lo: "low_relevance (statistics br) = 0"
    using t4 unfolding len [of "\<lambda>s. s = ''low_relevance''"] rs by simp
  have f: "failed (statistics br) = 1"
    using t5 unfolding len [of "\<lambda>s. s = ''error'' \<or> s = ''enrichment_failed''"] rs by simp
  have "statistics br
      = \<lparr> total = 2, successful = 0, sent = 0, low_relevance = 0, failed = 1 \<rparr>"
    using t s e lo f by simp
  then show ?thesis
    using st batch_statistics_some [OF b] by simp
qed

text \<open>
  C7 as stated fails: no setting reaches any of the three thresholds. Under any two
  settings the evaluator returns the same flag, the loop returns the same draft and the
  send decision gives the same status; a draft scoring 0.75 passes the evaluator under
  the default settings and under settings that differ in every field.
\<close>

theorem thresholds_not_configurable:
  "\<not> (\<exists>self self' e a. passes_qa (quality_control self e a)
                          \<noteq> passes_qa (quality_control self' e a))
   \<and> \<not> (\<exists>self self' sv lead a cc vp st.
           refine 2 sv self lead a cc vp None None st
             \<noteq> refine 2 sv self' lead a cc vp None None st)
   \<and> \<not> (\<exists>self self' lead auto a e q res st.
           status (fst (persist_and_send self lead auto a e q res st))
             \<noteq> status (fst (persist_and_send self' lead auto a e q res st)))
   \<and> quality_score (quality_control default_settings medium_draft (analysis_with 0.5)) = 0.75
   \<and> passes_qa (quality_control default_settings medium_draft (analysis_with 0.5))
   \<and> passes_qa (quality_control strict_settings medium_draft (analysis_with 0.5))"
proof -
  have a: "\<not> (\<exists>self self' e a. passes_qa (quality_control self e a)
                          \<noteq> passes_qa (quality_control self' e a))"
    using quality_control_settings by metis
  have b: "\<not> (\<exists>self self' sv lead a cc vp st.
           refine 2 sv self lead a cc vp None None st
             \<noteq> refine 2 sv self' lead a cc vp None None st)"
    using refine_settings by blast
  have c: "\<not> (\<exists>self self' lead auto a e q res st.
           status (fst (persist_and_send self lead auto a e q res st))
             \<noteq> status (fst (persist_and_send self' lead auto a e q res st)))"
    using persist_and_send_status_settings by blast
  have d: "quality_score (quality_control default_settings medium_draft (analysis_with 0.5))
             = 0.75"
    by code_simp
  have e: "passes_qa (quality_control default_settings medium_draft (analysis_with 0.5))"
    by code_simp
  have f: "passes_qa (quality_control strict_settings medium_draft (analysis_with 0.5))"
    by code_simp
  show ?thesis
    using a b c d e f by blast
qed

text \<open>
  The witness of C7: the draft scoring 0.75 passes the evaluator's threshold but not the
  loop's; the strong draft is accepted at the first attempt and dispatched.
\<close>

theorem thresholds_are_literals_witness:
  "passes_qa (quality_control default_settings medium_draft (analysis_with 0.92))
   \<and> \<not> 0.8 \<le> quality_score (quality_control default_settings medium_draft (analysis_with 0.92))
   \<and> generate_email mock_services default_settings ann (analysis_with 0.92) ''ctx'' ''vp'' store
       = (Inr strong_draft, emit GeneratePersonalizedEmail store)
   \<and> refine (Suc 0) mock_services default_settings ann (analysis_with 0.92) ''ctx'' ''vp''
        None None store
       = (Inr (Some strong_draft,
               Some (quality_control default_settings strong_draft (analysis_with 0.92))),
          emit QualityControl (emit GeneratePersonalizedEmail store))
   \<and> subject_line strong_draft = Some ''Your post about deployment bottlenecks''
   \<and> status (fst (persist_and_send default_settings ann True (analysis_with 0.92)
                     (Some strong_draft)
                     (Some (quality_control default_settings strong_draft (analysis_with 0.92)))
                     (initial_result ann) store))
       = ''sent''"
proof -
  note T = thresholds_are_literals
    [where self = default_settings and e = medium_draft and a = "analysis_with 0.92"
       and sv = mock_services and lead = ann and cc = "''ctx''" and vp = "''vp''"
       and st = store and n = 0 and ?e0.0 = None and ?q0.0 = None and auto = True
       and qc = "quality_control default_settings strong_draft (analysis_with 0.92)"
       and res = "initial_result ann"]
  have p: "passes_qa (quality_control default_settings medium_draft (analysis_with 0.92))"
    by code_simp
  have n: "\<not> 0.8 \<le> quality_score
               (quality_control default_settings medium_draft (analysis_with 0.92))"
    by code_simp
  note g = mock_generate [of default_settings ann "analysis_with 0.92" "''ctx''" "''vp''" store]
  note h = strong_draft_accepted [of default_settings]
  have s: "subject_line strong_draft = Some ''Your post about deployment bottlenecks''"
    by (simp add: strong_draft_def)
  have b: "email_body strong_draft = Some (get_default (email_body strong_draft) [])"
    by (simp add: strong_draft_def get_default_def)
  from T g h have r: "refine (Suc 0) mock_services default_settings ann (analysis_with 0.92)
        ''ctx'' ''vp'' None None store
       = (Inr (Some strong_draft,
               Some (quality_control default_settings strong_draft (analysis_with 0.92))),
          emit QualityControl (emit GeneratePersonalizedEmail store))"
    by simp
  from T s b h have t: "status (fst (persist_and_send default_settings ann True
                     (analysis_with 0.92) (Some strong_draft)
                     (Some (quality_control default_settings strong_draft (analysis_with 0.92)))
                     (initial_result ann) store))
       = ''sent''"
    by blast
  show ?thesis
    using p n g r s t by blast
qed


end
